theory Spec2Isabelle
  imports Complex_Main
begin

section \<open>Strings as Python uses them\<close>

text \<open>
  Paths and metadata are Python \<open>str\<close> values; they are modelled as \<open>string\<close>
  (lists of 8-bit characters), with ASCII case conversion. Every extension the
  program compares against is ASCII.
\<close>

definition lower_char :: "char \<Rightarrow> char" where
  "lower_char c =
     (let n = (of_char c :: nat) in if 65 \<le> n \<and> n \<le> 90 then char_of (n + 32) else c)"

definition upper_char :: "char \<Rightarrow> char" where
  "upper_char c =
     (let n = (of_char c :: nat) in if 97 \<le> n \<and> n \<le> 122 then char_of (n - 32) else c)"

definition lower :: "string \<Rightarrow> string" where
  "lower s = map lower_char s"

definition upper :: "string \<Rightarrow> string" where
  "upper s = map upper_char s"

definition endswith :: "string \<Rightarrow> string \<Rightarrow> bool" where
  "endswith s suf = (length suf \<le> length s \<and> drop (length s - length suf) s = suf)"

definition startswith :: "string \<Rightarrow> string \<Rightarrow> bool" where
  "startswith s pre = (take (length pre) s = pre)"

text \<open>\<open>s.split(c)\<close> for a one-character separator: never the empty list.\<close>

fun split_sep :: "char \<Rightarrow> string \<Rightarrow> string list" where
  "split_sep c [] = [[]]"
| "split_sep c (x # xs) =
     (if x = c then [] # split_sep c xs
      else (case split_sep c xs of [] \<Rightarrow> [[x]] | p # ps \<Rightarrow> (x # p) # ps))"

text \<open>\<open>c.join(parts)\<close>.\<close>

fun join_sep :: "char \<Rightarrow> string list \<Rightarrow> string" where
  "join_sep c [] = []"
| "join_sep c [p] = p"
| "join_sep c (p # q # ps) = p @ c # join_sep c (q # ps)"


text \<open>\<open>str(i)\<close> for a Python int: decimal digits, with a leading minus sign.\<close>

definition digit_char :: "nat \<Rightarrow> char" where
  "digit_char d = char_of (48 + d)"

fun digits_nat :: "nat \<Rightarrow> string" where
  "digits_nat n = (if n < 10 then [digit_char n] else digits_nat (n div 10) @ [digit_char (n mod 10)])"

declare digits_nat.simps [simp del]

definition str_int :: "int \<Rightarrow> string" where
  "str_int i = (if i < 0 then CHR ''-'' # digits_nat (nat (- i)) else digits_nat (nat i))"

section \<open>\<open>os.path\<close> on a POSIX platform\<close>

text \<open>
  The program calls \<open>os.path\<close> and \<open>os.sep\<close>; the model fixes the POSIX flavour
  (\<open>posixpath\<close>, separator \<open>/\<close>).
\<close>

definition sep :: char where
  "sep = CHR ''/''"


definition path_join :: "string \<Rightarrow> string \<Rightarrow> string" where
  "path_join a b =
     (if startswith b [sep] then b
      else if a = [] \<or> endswith a [sep] then a @ b
      else a @ sep # b)"

definition basename :: "string \<Rightarrow> string" where
  "basename p = last (split_sep sep p)"

text \<open>
  \<open>os.path.splitext(p)[1]\<close>: the suffix from the last dot of the last component,
  provided some character before that dot in the component is not a dot.\<close>

definition splitext_ext :: "string \<Rightarrow> string" where
  "splitext_ext p =
     (let b = basename p;
          r = rev b;
          stem = rev (drop 1 (dropWhile (\<lambda>c. c \<noteq> CHR ''.'') r))
      in if CHR ''.'' \<in> set b \<and> (\<exists>c \<in> set stem. c \<noteq> CHR ''.'')
         then CHR ''.'' # rev (takeWhile (\<lambda>c. c \<noteq> CHR ''.'') r)
         else [])"

definition initial_slashes :: "string \<Rightarrow> nat" where
  "initial_slashes path =
     (if startswith path [sep]
      then (if startswith path [sep, sep] \<and> \<not> startswith path [sep, sep, sep] then 2 else 1)
      else 0)"

text \<open>One iteration of the loop over the components in \<open>normpath\<close>.\<close>

definition normpath_step :: "nat \<Rightarrow> string list \<Rightarrow> string \<Rightarrow> string list" where
  "normpath_step init new_comps cmp =
     (if cmp = [] \<or> cmp = ''.'' then new_comps
      else if cmp \<noteq> ''..'' \<or> (init = 0 \<and> new_comps = [])
              \<or> (new_comps \<noteq> [] \<and> last new_comps = ''..'')
           then new_comps @ [cmp]
      else if new_comps \<noteq> [] then butlast new_comps
      else new_comps)"

definition normpath :: "string \<Rightarrow> string" where
  "normpath path =
     (if path = [] then ''.''
      else
        let init = initial_slashes path;
            comps = split_sep sep path;
            new_comps = foldl (normpath_step init) [] comps;
            p = replicate init sep @ join_sep sep new_comps
        in if p = [] then ''.'' else p)"

section \<open>\<open>config/constants.py\<close>\<close>

definition SUPPORTED_VIDEO_EXTS :: "string list" where
  "SUPPORTED_VIDEO_EXTS = [''.mp4'', ''.mov'', ''.avi'', ''.mkv'', ''.webm'']"

definition SUPPORTED_IMAGE_EXTS :: "string list" where
  "SUPPORTED_IMAGE_EXTS =
     [''.jpg'', ''.jpeg'', ''.png'', ''.bmp'', ''.tiff'', ''.tif'', ''.gif'',
      ''.exr'', ''.hdr'', ''.dpx'', ''.psd'', ''.svg'', ''.jp2'']"

definition THUMB_CACHE_VERSION :: string where
  "THUMB_CACHE_VERSION = ''2''"

section \<open>\<open>utils/file_utils.py\<close>\<close>

definition is_video :: "string \<Rightarrow> bool" where
  "is_video path = (lower (splitext_ext path) \<in> set SUPPORTED_VIDEO_EXTS)"

definition is_image :: "string \<Rightarrow> bool" where
  "is_image path = (lower (splitext_ext path) \<in> set SUPPORTED_IMAGE_EXTS)"

definition archive_extensions :: "string list" where
  "archive_extensions = [''.7z'', ''.zip'', ''.rar'', ''.tar'', ''.gz'', ''.bz2'']"

text \<open>\<open>any(part.lower().endswith(ext) for ext in archive_extensions)\<close>\<close>

definition is_archive_part :: "string \<Rightarrow> bool" where
  "is_archive_part part = list_ex (\<lambda>ext. endswith (lower part) ext) archive_extensions"

definition path_parts :: "string \<Rightarrow> string list" where
  "path_parts path = split_sep sep (normpath path)"

definition is_in_archive :: "string \<Rightarrow> bool" where
  "is_in_archive path = list_ex is_archive_part (path_parts path)"

text \<open>The \<open>for part in path_parts\<close> loop of \<open>get_archive_name\<close>.\<close>

fun first_archive_part :: "string list \<Rightarrow> string" where
  "first_archive_part [] = []"
| "first_archive_part (part # parts) =
     (if is_archive_part part then part else first_archive_part parts)"

definition get_archive_name :: "string \<Rightarrow> string" where
  "get_archive_name path = first_archive_part (path_parts path)"

section \<open>Errors\<close>

text \<open>The Python exceptions that can leave the modelled functions.\<close>

datatype error = OSError | ValueError | ZeroDivisionError

section \<open>\<open>thumbnail/cache.py\<close>\<close>

text \<open>
  What \<open>os.stat(path)\<close> does: it returns a record, of which the program reads
  \<open>st_mtime_ns\<close> and \<open>st_size\<close>; it raises \<open>FileNotFoundError\<close>; or it raises
  another \<open>OSError\<close> (permission denied, a component that is not a directory).
\<close>

datatype stat_result = StatOk int int | StatNotFound | StatOtherError

text \<open>The two f-strings of \<open>hash_for_file\<close>.\<close>

definition payload_stat :: "string \<Rightarrow> int \<Rightarrow> int \<Rightarrow> string" where
  "payload_stat path mtime_ns sz =
     THUMB_CACHE_VERSION @ ''|'' @ path @ ''|'' @ str_int mtime_ns @ ''|'' @ str_int sz"

definition payload_missing :: "string \<Rightarrow> string" where
  "payload_missing path = THUMB_CACHE_VERSION @ ''|'' @ path"

text \<open>
  \<open>hash_for_file\<close>, with \<open>hashlib.sha1(...).hexdigest()\<close> as the parameter \<open>sha1\<close>
  and the file system's \<open>os.stat\<close> as the parameter \<open>stat\<close>. Only
  \<open>FileNotFoundError\<close> is caught.
\<close>

definition hash_for_file ::
  "(string \<Rightarrow> string) \<Rightarrow> (string \<Rightarrow> stat_result) \<Rightarrow> string \<Rightarrow> error + string" where
  "hash_for_file sha1 stat path =
     (case stat path of
        StatOk mtime_ns sz \<Rightarrow> Inr (sha1 (payload_stat path mtime_ns sz))
      | StatNotFound \<Rightarrow> Inr (sha1 (payload_missing path))
      | StatOtherError \<Rightarrow> Inl OSError)"







section \<open>The world outside the program\<close>

text \<open>
  A decoded array of shape \<open>(rows, cols, 3)\<close>; \<open>ident\<close> stands for its pixel data.
\<close>

datatype raster = Raster (rows: nat) (cols: nat) (ident: nat)

text \<open>
  Canvases are kept symbolic: \<open>Blank h w\<close> is \<open>np.full((h, w, 3), THUMB_BG, np.uint8)\<close>,
  \<open>PutText c txt x y\<close> is \<open>cv2.putText(c, txt, (x, y), ...)\<close>, and
  \<open>Paste c y0 x0 new_h new_w r\<close> is \<open>c[y0:y0+new_h, x0:x0+new_w] = cv2.resize(r, (new_w, new_h))\<close>.
\<close>

datatype canvas =
    Blank int int
  | PutText canvas string int int
  | Paste canvas int int int int raster

text \<open>\<open>QPixmap.fromImage(to_qimage(c, is_bgr=True))\<close>\<close>

datatype pixmap = Pixmap canvas

datatype thumb_result = ThumbResult string pixmap string

text \<open>What \<open>cv2.imread\<close> on a source file does: an array, \<open>None\<close>, or \<open>cv2.error\<close>.\<close>

datatype imread_result = ImRaster raster | ImNone | ImError

text \<open>What \<open>cv2.imwrite\<close> does: it writes the file, returns \<open>False\<close>, or raises.\<close>

datatype imwrite_result = WriteOk | WriteFalse | WriteRaises

text \<open>
  The calls that the claims speak about, in the order the program makes them.
\<close>

datatype event =
    Ev_cache_read string
  | Ev_cache_write string
  | Ev_extract_frame_video string
  | Ev_read_image_oiio string
  | Ev_cv2_imread string
  | Ev_VideoCapture string
  | Ev_oiio_open string

text \<open>
  The libraries and the source files, which the program only reads, are parameters:
  \<open>oiio_decode\<close> is the body of \<open>read_image_oiio\<close> from the opening of the reader
  on (it catches every exception and returns \<open>None\<close>), \<open>oiio_metadata\<close> the same
  for \<open>read_metadata_oiio\<close>, \<open>cv2_video_frame\<close> is \<open>extract_frame_video\<close> from
  \<open>cv2.VideoCapture\<close> on, and \<open>cv2_video_metadata\<close> is \<open>get_video_metadata\<close> from
  \<open>cv2.VideoCapture\<close> on. Library calls without an entry here are taken to succeed.
\<close>

record env =
  hashlib_sha1 :: "string \<Rightarrow> string"
  os_stat :: "string \<Rightarrow> stat_result"
  os_makedirs_ok :: "string \<Rightarrow> bool"
  os_path_exists :: "string \<Rightarrow> bool"
  oiio_available :: bool
  oiio_decode :: "string \<Rightarrow> raster option"
  oiio_metadata :: "string \<Rightarrow> string"
  cv2_imread :: "string \<Rightarrow> imread_result"
  cv2_imwrite :: "string \<Rightarrow> imwrite_result"
  cv2_video_frame :: "string \<Rightarrow> raster option"
  cv2_video_metadata :: "string \<Rightarrow> string"

text \<open>
  What the program changes: the directories it creates, the cache files (\<open>Some c\<close> a
  file that decodes to \<open>c\<close>, \<open>None\<close> a file that does not decode), the calls made
  so far, and the results emitted through \<open>signals.done\<close>.
\<close>

record world =
  dirs :: "string set"
  files :: "string \<rightharpoonup> canvas option"
  trace :: "event list"
  emitted :: "thumb_result list"

definition log_events :: "event list \<Rightarrow> world \<Rightarrow> world" where
  "log_events evs w = w\<lparr>trace := trace w @ evs\<rparr>"

text \<open>\<open>os.makedirs(p, exist_ok=True)\<close>\<close>

definition makedirs :: "env \<Rightarrow> string \<Rightarrow> world \<Rightarrow> (error + unit) \<times> world" where
  "makedirs e p w =
     (if os_makedirs_ok e p then (Inr (), w\<lparr>dirs := insert p (dirs w)\<rparr>) else (Inl OSError, w))"

text \<open>\<open>CacheManager.get_cache_path\<close>\<close>

definition get_cache_path :: "env \<Rightarrow> string \<Rightarrow> string \<Rightarrow> world \<Rightarrow> (error + string) \<times> world" where
  "get_cache_path e cache_root src_path w =
     (case hash_for_file (hashlib_sha1 e) (os_stat e) src_path of
        Inl err \<Rightarrow> (Inl err, w)
      | Inr h \<Rightarrow>
          let sub = path_join cache_root (take 2 h)
          in (case makedirs e sub w of
                (Inl err, w') \<Rightarrow> (Inl err, w')
              | (Inr _, w') \<Rightarrow> (Inr (path_join sub (h @ ''.png'')), w')))"

section \<open>\<open>thumbnail/image_processor.py\<close>\<close>

definition nl :: string where
  "nl = [CHR 0x0A]"

text \<open>\<open>ext[1:] if ext else 'Unknown'\<close> for \<open>ext = os.path.splitext(path)[1].upper()\<close>\<close>

definition format_label :: "string \<Rightarrow> string" where
  "format_label path =
     (let ext = upper (splitext_ext path) in if ext \<noteq> [] then drop 1 ext else ''Unknown'')"

text \<open>
  The decoders return their result together with the calls they made.
  \<open>read_image_oiio\<close>: without the library, or on a video extension, it returns
  \<open>None\<close> before it opens anything.
\<close>

definition read_image_oiio :: "env \<Rightarrow> string \<Rightarrow> raster option \<times> event list" where
  "read_image_oiio e path =
     (if \<not> oiio_available e then (None, [Ev_read_image_oiio path])
      else if lower (splitext_ext path) \<in> set SUPPORTED_VIDEO_EXTS
        then (None, [Ev_read_image_oiio path])
      else (oiio_decode e path, [Ev_read_image_oiio path, Ev_oiio_open path]))"

definition read_metadata_oiio :: "env \<Rightarrow> string \<Rightarrow> string \<times> event list" where
  "read_metadata_oiio e path =
     (if \<not> oiio_available e then ([], [])
      else
        let ext = lower (splitext_ext path)
        in if ext \<in> set SUPPORTED_VIDEO_EXTS then (''Video file: '' @ upper ext, [])
           else (oiio_metadata e path, [Ev_oiio_open path]))"

text \<open>
  \<open>extract_frame_video\<close>: the scan over the segments of the normalised path comes
  first, then the existence check, and only then \<open>cv2.VideoCapture\<close>.
\<close>

definition extract_frame_video :: "env \<Rightarrow> string \<Rightarrow> raster option \<times> event list" where
  "extract_frame_video e path =
     (let normalized_path = normpath path
      in if list_ex is_archive_part (split_sep sep normalized_path)
           then (None, [Ev_extract_frame_video path])
         else if \<not> os_path_exists e normalized_path
           then (None, [Ev_extract_frame_video path])
         else (cv2_video_frame e normalized_path,
               [Ev_extract_frame_video path, Ev_VideoCapture normalized_path]))"

definition get_video_metadata :: "env \<Rightarrow> string \<Rightarrow> string \<times> event list" where
  "get_video_metadata e path =
     (let normalized_path = normpath path
      in (case find is_archive_part (split_sep sep normalized_path) of
            Some archive_name \<Rightarrow>
              (''Video file in archive: '' @ archive_name @ nl @ ''Format: '' @ format_label path
                 @ nl @ ''Note: Extract archive to view video'', [])
          | None \<Rightarrow>
              if \<not> os_path_exists e normalized_path
                then (''Video file not found'' @ nl @ ''Format: '' @ format_label path, [])
              else (cv2_video_metadata e path, [Ev_VideoCapture normalized_path])))"

section \<open>\<open>thumbnail/thumb_task.py\<close>\<close>

definition raster_of :: "imread_result \<Rightarrow> raster option" where
  "raster_of r = (case r of ImRaster img \<Rightarrow> Some img | _ \<Rightarrow> None)"

text \<open>
  The dispatch of \<open>_make_thumbnail\<close> on the normalised path (the \<open>if is_video\<close> /
  \<open>elif is_image\<close> / \<open>else\<close> block): the raster or \<open>None\<close>, the metadata text, and
  the calls made. In the last branch only \<open>cv2.error\<close> leads to \<open>read_image_oiio\<close>.
\<close>

definition load_media :: "env \<Rightarrow> string \<Rightarrow> (raster option \<times> string) \<times> event list" where
  "load_media e normalized_path =
     (if is_video normalized_path then
        let (img_bgr, ev1) = extract_frame_video e normalized_path;
            (meta, ev2) = get_video_metadata e normalized_path
        in ((img_bgr, meta), ev1 @ ev2)
      else if is_image normalized_path then
        let (img_bgr, ev1) = read_image_oiio e normalized_path;
            (meta, ev2) = read_metadata_oiio e normalized_path
        in if img_bgr = None
           then ((raster_of (cv2_imread e normalized_path), meta),
                 ev1 @ ev2 @ [Ev_cv2_imread normalized_path])
           else ((img_bgr, meta), ev1 @ ev2)
      else
        (case cv2_imread e normalized_path of
           ImError \<Rightarrow>
             let (img_bgr, ev1) = read_image_oiio e normalized_path;
                 (meta, ev2) = read_metadata_oiio e normalized_path
             in ((img_bgr, meta), Ev_cv2_imread normalized_path # ev1 @ ev2)
         | r \<Rightarrow>
             let (meta, ev2) = read_metadata_oiio e normalized_path
             in ((raster_of r, meta), Ev_cv2_imread normalized_path # ev2)))"

text \<open>
  Python's \<open>int(x)\<close> truncates towards zero. The true division of two ints gives a
  float; it is modelled by the exact quotient.
\<close>

definition py_int :: "rat \<Rightarrow> int" where
  "py_int x = (if 0 \<le> x then \<lfloor>x\<rfloor> else \<lceil>x\<rceil>)"

definition thumb_height_of :: "int \<Rightarrow> int" where
  "thumb_height_of thumb_size = py_int (of_int (thumb_size * 9) / 16)"

record layout =
  canvas_w :: int
  canvas_h :: int
  new_w :: int
  new_h :: int
  x0 :: int
  y0 :: int

text \<open>
  The geometry of the composite: \<open>thumb_height\<close>, \<open>scale\<close>, \<open>new_w\<close>, \<open>new_h\<close>,
  \<open>y0\<close>, \<open>x0\<close> for a raster of shape \<open>(h, w)\<close>. A raster without rows or columns
  makes the division raise.
\<close>

definition letterbox :: "int \<Rightarrow> nat \<Rightarrow> nat \<Rightarrow> error + layout" where
  "letterbox thumb_size h w =
     (let thumb_height = thumb_height_of thumb_size
      in if w = 0 \<or> h = 0 then Inl ZeroDivisionError
         else
           let scale = min (of_int thumb_size / of_nat w) (of_int thumb_height / of_nat h);
               nw = max 1 (py_int (of_nat w * scale));
               nh = max 1 (py_int (of_nat h * scale))
           in Inr \<lparr>canvas_w = thumb_size, canvas_h = thumb_height, new_w = nw, new_h = nh,
                   x0 = (thumb_size - nw) div 2, y0 = (thumb_height - nh) div 2\<rparr>)"

text \<open>\<open>os.path.exists(cache_path)\<close> followed by \<open>cv2.imread(cache_path)\<close>.\<close>

definition cache_lookup :: "string \<Rightarrow> world \<Rightarrow> canvas option \<times> world" where
  "cache_lookup cache_path w =
     (if files w cache_path \<noteq> None \<or> cache_path \<in> dirs w
      then ((case files w cache_path of Some (Some c) \<Rightarrow> Some c | _ \<Rightarrow> None),
            log_events [Ev_cache_read cache_path] w)
      else (None, w))"

text \<open>The \<open>try: cv2.imwrite(cache_path, canvas) except Exception\<close> block.\<close>

definition cache_store :: "env \<Rightarrow> string \<Rightarrow> canvas \<Rightarrow> world \<Rightarrow> world" where
  "cache_store e cache_path c w =
     (let w' = log_events [Ev_cache_write cache_path] w
      in (case cv2_imwrite e cache_path of
            WriteOk \<Rightarrow> w'\<lparr>files := (files w')(cache_path \<mapsto> Some c)\<rparr>
          | _ \<Rightarrow> w'))"

text \<open>The \<open>if img_bgr is None\<close> block; \<open>np.full\<close> rejects a negative dimension.\<close>

definition placeholder :: "string \<Rightarrow> int \<Rightarrow> string \<Rightarrow> error + pixmap \<times> string" where
  "placeholder path thumb_size meta =
     (let thumb_height = thumb_height_of thumb_size
      in if thumb_size < 0 then Inl ValueError
         else
           let thumb = Blank thumb_height thumb_size
           in if is_in_archive path
              then Inr (Pixmap (PutText thumb ''ZIP'' (thumb_size div 2 - 20) (thumb_height div 2 + 10)),
                        if meta \<noteq> [] then meta
                        else ''File in compressed archive: '' @ get_archive_name path @ nl
                               @ ''Extract archive to view content'')
              else Inr (Pixmap (PutText thumb ''?'' (thumb_size div 2 - 10) (thumb_height div 2 + 10)),
                        if meta \<noteq> [] then meta else ''(unsupported or failed to load)''))"

text \<open>
  \<open>ThumbTask._make_thumbnail\<close> from \<open>img_bgr = None\<close> on, that is after the cache
  check has found nothing to return: decode, then placeholder or composite and cache write.
\<close>

definition decode_and_compose ::
  "env \<Rightarrow> string \<Rightarrow> int \<Rightarrow> string \<Rightarrow> world \<Rightarrow> (error + pixmap \<times> string) \<times> world" where
  "decode_and_compose e path thumb_size cache_path w =
     (let normalized_path = normpath path;
          ((img_bgr, meta), ev) = load_media e normalized_path;
          w' = log_events ev w
      in (case img_bgr of
            None \<Rightarrow> (placeholder path thumb_size meta, w')
          | Some r \<Rightarrow>
              (case letterbox thumb_size (rows r) (cols r) of
                 Inl err \<Rightarrow> (Inl err, w')
               | Inr l \<Rightarrow>
                   if thumb_size < 0 then (Inl ValueError, w')
                   else
                     let c = Paste (Blank (canvas_h l) (canvas_w l))
                               (y0 l) (x0 l) (new_h l) (new_w l) r
                     in (Inr (Pixmap c, meta), cache_store e cache_path c w'))))"

text \<open>
  \<open>ThumbTask._make_thumbnail\<close>: create the cache root, compute the cache path, return the
  cached canvas with fresh metadata when the cache file decodes, and decode otherwise.
\<close>

definition make_thumbnail ::
  "env \<Rightarrow> string \<Rightarrow> int \<Rightarrow> string \<Rightarrow> world \<Rightarrow> (error + pixmap \<times> string) \<times> world" where
  "make_thumbnail e path thumb_size cache_root w =
     (case makedirs e cache_root w of
        (Inl err, w1) \<Rightarrow> (Inl err, w1)
      | (Inr _, w1) \<Rightarrow>
     (case get_cache_path e cache_root path w1 of
        (Inl err, w2) \<Rightarrow> (Inl err, w2)
      | (Inr cache_path, w2) \<Rightarrow>
     (case cache_lookup cache_path w2 of
        (Some img, w3) \<Rightarrow>
          let (meta, ev) = (if is_video path then get_video_metadata e path
                            else read_metadata_oiio e path)
          in (Inr (Pixmap img, meta), log_events ev w3)
      | (None, w3) \<Rightarrow> decode_and_compose e path thumb_size cache_path w3)))"

text \<open>
  \<open>ThumbTask.run\<close>: the result is emitted after \<open>_make_thumbnail\<close> has returned; an
  exception from it leaves \<open>run\<close> before the \<open>emit\<close>.
\<close>

definition run :: "env \<Rightarrow> string \<Rightarrow> int \<Rightarrow> string \<Rightarrow> world \<Rightarrow> (error + unit) \<times> world" where
  "run e path thumb_size cache_root w =
     (case make_thumbnail e path thumb_size cache_root w of
        (Inl err, w') \<Rightarrow> (Inl err, w')
      | (Inr (pm, meta_text), w') \<Rightarrow>
          (Inr (), w'\<lparr>emitted := emitted w' @ [ThumbResult path pm meta_text]\<rparr>))"

text \<open>
  The path that \<open>get_cache_path\<close> returns, apart from the directory it creates.
\<close>

definition cache_file_path :: "env \<Rightarrow> string \<Rightarrow> string \<Rightarrow> error + string" where
  "cache_file_path e cache_root src_path =
     (case hash_for_file (hashlib_sha1 e) (os_stat e) src_path of
        Inl err \<Rightarrow> Inl err
      | Inr h \<Rightarrow> Inr (path_join (path_join cache_root (take 2 h)) (h @ ''.png'')))"

section \<open>Concrete worlds\<close>

text \<open>An empty cache, nothing called, nothing emitted.\<close>

definition fresh_world :: world where
  "fresh_world = \<lparr>dirs = {}, files = Map.empty, trace = [], emitted = []\<rparr>"

text \<open>
  A machine on which OpenImageIO is installed and decodes every file to a raster of 4
  rows and 7 columns, while OpenCV's \<open>imread\<close> returns \<open>None\<close> for every file.
\<close>

definition oiio_only_env :: env where
  "oiio_only_env =
     \<lparr>hashlib_sha1 = (\<lambda>_. ''5ba93c9d''),
      os_stat = (\<lambda>_. StatOk 1 1),
      os_makedirs_ok = (\<lambda>_. True),
      os_path_exists = (\<lambda>_. True),
      oiio_available = True,
      oiio_decode = (\<lambda>_. Some (Raster 4 7 0)),
      oiio_metadata = (\<lambda>_. ''7x4x3, format=float''),
      cv2_imread = (\<lambda>_. ImNone),
      cv2_imwrite = (\<lambda>_. WriteOk),
      cv2_video_frame = (\<lambda>_. None),
      cv2_video_metadata = (\<lambda>_. [])\<rparr>"

text \<open>The same machine with a cache location in which no directory can be created.\<close>

definition readonly_env :: env where
  "readonly_env = oiio_only_env\<lparr>os_makedirs_ok := (\<lambda>_. False)\<rparr>"

section \<open>Facts about splitting and normalising paths\<close>








lemma length_lower [simp]: "length (lower s) = length s"
  by (simp add: lower_def)






section \<open>Facts about the hash payload\<close>

lemma of_char_digit_char: "d < 10 \<Longrightarrow> (of_char (digit_char d) :: nat) = 48 + d"
  by (simp add: digit_char_def)

lemma digit_char_inj: "d < 10 \<Longrightarrow> d' < 10 \<Longrightarrow> digit_char d = digit_char d' \<Longrightarrow> d = d'"
  by (metis of_char_digit_char add_left_cancel)

lemma digit_char_not_bar: "d < 10 \<Longrightarrow> digit_char d \<noteq> CHR ''|''"
  using of_char_digit_char [of d] by auto

lemma digit_char_not_minus: "d < 10 \<Longrightarrow> digit_char d \<noteq> CHR ''-''"
  using of_char_digit_char [of d] by auto


lemma digits_nat_nonempty: "digits_nat n \<noteq> []"
  by (subst digits_nat.simps) simp

lemma digits_nat_chars: "c \<in> set (digits_nat n) \<Longrightarrow> \<exists>d < 10. c = digit_char d"
proof (induction n rule: digits_nat.induct)
  case (1 n)
  show ?case
  proof (cases "n < 10")
    case True
    with "1.prems" show ?thesis by (subst (asm) digits_nat.simps) auto
  next
    case False
    with "1.prems" have "c \<in> set (digits_nat (n div 10)) \<or> c = digit_char (n mod 10)"
      by (subst (asm) digits_nat.simps) auto
    then show ?thesis
    proof
      assume "c \<in> set (digits_nat (n div 10))"
      then show ?thesis using "1.IH" False by simp
    next
      assume "c = digit_char (n mod 10)"
      moreover have "n mod 10 < 10" by simp
      ultimately show ?thesis by blast
    qed
  qed
qed

lemma digits_nat_inj: "digits_nat n = digits_nat m \<Longrightarrow> n = m"
proof (induction n arbitrary: m rule: digits_nat.induct)
  case (1 n)
  show ?case
  proof (cases "n < 10")
    case n: True
    show ?thesis
    proof (cases "m < 10")
      case True
      with n "1.prems" show ?thesis
        by (subst (asm) digits_nat.simps, subst (asm) (2) digits_nat.simps)
           (auto dest: digit_char_inj)
    next
      case False
      with n "1.prems" have "[digit_char n] = digits_nat (m div 10) @ [digit_char (m mod 10)]"
        by (subst (asm) digits_nat.simps, subst (asm) (2) digits_nat.simps) simp
      then show ?thesis using digits_nat_nonempty [of "m div 10"] by simp
    qed
  next
    case n: False
    show ?thesis
    proof (cases "m < 10")
      case True
      with n "1.prems" have "digits_nat (n div 10) @ [digit_char (n mod 10)] = [digit_char m]"
        by (subst (asm) digits_nat.simps, subst (asm) (2) digits_nat.simps) simp
      then show ?thesis using digits_nat_nonempty [of "n div 10"] by simp
    next
      case False
      with n "1.prems" have eq: "digits_nat (n div 10) @ [digit_char (n mod 10)]
          = digits_nat (m div 10) @ [digit_char (m mod 10)]"
        by (subst (asm) digits_nat.simps, subst (asm) (2) digits_nat.simps) simp
      then have "n div 10 = m div 10" using "1.IH" n by simp
      moreover have "n mod 10 = m mod 10"
        using eq digit_char_inj [of "n mod 10" "m mod 10"] by simp
      ultimately show ?thesis by (metis div_mult_mod_eq)
    qed
  qed
qed

lemma str_int_inj: "str_int i = str_int j \<Longrightarrow> i = j"
proof -
  assume eq: "str_int i = str_int j"
  have hd_digit: "\<And>n. hd (digits_nat n) \<noteq> CHR ''-''"
  proof -
    fix n
    have "hd (digits_nat n) \<in> set (digits_nat n)" using digits_nat_nonempty by simp
    then obtain d where "d < 10" "hd (digits_nat n) = digit_char d"
      using digits_nat_chars by blast
    then show "hd (digits_nat n) \<noteq> CHR ''-''"
      using digit_char_not_minus by simp
  qed
  show ?thesis
  proof (cases "i < 0"; cases "j < 0")
    assume "i < 0" "j < 0"
    with eq have "nat (- i) = nat (- j)" by (auto simp: str_int_def dest: digits_nat_inj)
    with \<open>i < 0\<close> \<open>j < 0\<close> show ?thesis by simp
  next
    assume "i < 0" "\<not> j < 0"
    with eq have "CHR ''-'' # digits_nat (nat (- i)) = digits_nat (nat j)" by (simp add: str_int_def)
    then have "hd (digits_nat (nat j)) = CHR ''-''" by (metis list.sel(1))
    then show ?thesis using hd_digit by blast
  next
    assume "\<not> i < 0" "j < 0"
    with eq have "digits_nat (nat i) = CHR ''-'' # digits_nat (nat (- j))" by (simp add: str_int_def)
    then have "hd (digits_nat (nat i)) = CHR ''-''" by (metis list.sel(1))
    then show ?thesis using hd_digit by blast
  next
    assume "\<not> i < 0" "\<not> j < 0"
    with eq have "nat i = nat j" by (auto simp: str_int_def dest: digits_nat_inj)
    with \<open>\<not> i < 0\<close> \<open>\<not> j < 0\<close> show ?thesis by simp
  qed
qed

lemma digits_nat_no_bar: "CHR ''|'' \<notin> set (digits_nat n)"
proof
  assume "CHR ''|'' \<in> set (digits_nat n)"
  then obtain d where "d < 10" "CHR ''|'' = digit_char d"
    using digits_nat_chars by blast
  then show False using digit_char_not_bar [of d] by metis
qed

lemma str_int_no_bar: "CHR ''|'' \<notin> set (str_int i)"
  by (simp add: str_int_def digits_nat_no_bar)

lemma takeWhile_until:
  "c \<notin> set ys \<Longrightarrow> takeWhile (\<lambda>x. x \<noteq> c) (ys @ c # zs) = ys"
  by (induction ys) auto

lemma split_at_last:
  assumes "xs @ c # ys = xs' @ c # ys'" and "c \<notin> set ys" and "c \<notin> set ys'"
  shows "xs = xs' \<and> ys = ys'"
proof -
  have "takeWhile (\<lambda>x. x \<noteq> c) (rev (xs @ c # ys)) = rev ys"
    using assms(2) by (simp add: takeWhile_until)
  moreover have "takeWhile (\<lambda>x. x \<noteq> c) (rev (xs' @ c # ys')) = rev ys'"
    using assms(3) by (simp add: takeWhile_until)
  ultimately have "ys = ys'" using assms(1) by simp
  then show ?thesis using assms(1) by simp
qed

lemma payload_stat_inj:
  assumes "payload_stat p m s = payload_stat p' m' s'"
  shows "p = p' \<and> m = m' \<and> s = s'"
proof -
  from assms have eq: "(p @ CHR ''|'' # str_int m) @ CHR ''|'' # str_int s
      = (p' @ CHR ''|'' # str_int m') @ CHR ''|'' # str_int s'"
    by (simp add: payload_stat_def)
  then have 1: "p @ CHR ''|'' # str_int m = p' @ CHR ''|'' # str_int m'" and 2: "str_int s = str_int s'"
    using split_at_last [OF eq str_int_no_bar str_int_no_bar] by simp_all
  have "p = p' \<and> str_int m = str_int m'"
    using split_at_last [OF 1 str_int_no_bar str_int_no_bar] .
  then show ?thesis using 2 str_int_inj by blast
qed


section \<open>Facts about the letterbox geometry\<close>



section \<open>Facts about the cache root\<close>





section \<open>The claims\<close>



text \<open>
  Claim C7. For two files whose \<open>os.stat\<close> succeeds, the hashed payloads are equal only
  if path, mtime and size are all equal; so two keys of files that differ in path, in
  mtime or in size can coincide only when the hash function maps two different payloads
  to the same digest.
\<close>

theorem cache_key_sensitivity:
  assumes "stat p = StatOk m s" and "stat' p' = StatOk m' s'" and "(p, m, s) \<noteq> (p', m', s')"
  shows "payload_stat p m s \<noteq> payload_stat p' m' s'
         \<and> (hash_for_file sha1 stat p = hash_for_file sha1 stat' p' \<longrightarrow>
              sha1 (payload_stat p m s) = sha1 (payload_stat p' m' s'))"
  using assms payload_stat_inj [of p m s p' m' s'] by (auto simp: hash_for_file_def)

theorem cache_key_sensitivity_witness:
  "(\<lambda>_. StatOk 5 7) ''/a/x.png'' = StatOk 5 7
   \<and> (\<lambda>_. StatOk 6 7) ''/a/x.png'' = StatOk 6 7
   \<and> (''/a/x.png'', 5 :: int, 7 :: int) \<noteq> (''/a/x.png'', 6, 7)
   \<and> hash_for_file (\<lambda>_. ''00'') (\<lambda>_. StatOk 5 7) ''/a/x.png''
       = hash_for_file (\<lambda>_. ''00'') (\<lambda>_. StatOk 6 7) ''/a/x.png''
   \<and> payload_stat ''/a/x.png'' 5 7 \<noteq> payload_stat ''/a/x.png'' 6 7"
  using cache_key_sensitivity [of "\<lambda>_. StatOk 5 7" "''/a/x.png''" 5 7
          "\<lambda>_. StatOk 6 7" "''/a/x.png''" 6 7 "\<lambda>_. ''00''"]
  by (simp add: hash_for_file_def)









end
